theory Spec2Isabelle
  imports Main
begin

section \<open>The values the decorator handles\<close>

text \<open>
  \<^verbatim>\<open>django_sharding_library/decorators.py\<close> holds one function,
  \<^verbatim>\<open>model_config(shard_group=None, database=None, sharded_by_field=None)\<close>,
  which returns the closure \<^verbatim>\<open>configure(cls)\<close>. The closure reads its three
  captured arguments, \<^verbatim>\<open>settings.DATABASES\<close> and the model class, raises an
  exception or mutates the class and returns it.

  Python values are untyped, so the arguments and the class attributes are values of
  one datatype. A manager object is known by its class: \<^verbatim>\<open>Manager\<close> itself,
  \<^verbatim>\<open>ShardManager\<close> itself, or a class written by the user, for which the flag says
  whether it inherits from \<^verbatim>\<open>ShardManager\<close>.
\<close>

datatype manager_class = Manager | ShardManager | CustomManager string bool

datatype pyval =
    PyNone
  | PyBool bool
  | PyInt int
  | PyStr string
  | PyFunc string
  | PyManager manager_class

text \<open>Python truthiness, as \<^verbatim>\<open>if database\<close> and \<^verbatim>\<open>if shard_group\<close> test it.\<close>

fun truthy :: "pyval \<Rightarrow> bool" where
  "truthy PyNone = False"
| "truthy (PyBool b) = b"
| "truthy (PyInt i) = (i \<noteq> 0)"
| "truthy (PyStr s) = (s \<noteq> [])"
| "truthy (PyFunc f) = True"
| "truthy (PyManager m) = True"

text \<open>\<^verbatim>\<open>callable(v)\<close>: of the values above only functions and methods are callable.\<close>

fun callable :: "pyval \<Rightarrow> bool" where
  "callable (PyFunc f) = True"
| "callable v = False"

text \<open>\<^verbatim>\<open>isinstance(v, ShardManager)\<close> and \<^verbatim>\<open>type(v) == Manager\<close>.\<close>

fun isinstance_ShardManager :: "pyval \<Rightarrow> bool" where
  "isinstance_ShardManager (PyManager ShardManager) = True"
| "isinstance_ShardManager (PyManager (CustomManager n inherits)) = inherits"
| "isinstance_ShardManager v = False"

fun type_is_Manager :: "pyval \<Rightarrow> bool" where
  "type_is_Manager (PyManager Manager) = True"
| "type_is_Manager v = False"

section \<open>Model classes and settings\<close>

text \<open>
  A field of a model: its name and whether its type is a subclass of
  \<^verbatim>\<open>ShardedIDFieldMixin\<close> (the test of line 30). \<^verbatim>\<open>field == cls._meta.pk\<close> is
  equality of fields; a model without primary key has \<^verbatim>\<open>pk = None\<close>, which equals no
  field.
\<close>

record model_field =
  field_name :: string
  sharded_id_field :: bool

text \<open>
  \<^verbatim>\<open>cls._meta\<close>, as far as the decorator reads it (\<open>meta_fields\<close> is
  \<^verbatim>\<open>_meta.fields\<close>). An entry of
  \<^verbatim>\<open>abstract_managers\<close> is a triple whose third component (\<^verbatim>\<open>x[2]\<close>) is the
  manager.
\<close>

record model_options =
  model_name :: string
  meta_fields :: "model_field list"
  pk :: "model_field option"
  abstract :: bool
  abstract_managers :: "(nat \<times> string \<times> pyval) list"

text \<open>
  A model class: \<^verbatim>\<open>__name__\<close>, \<^verbatim>\<open>_meta\<close> and its other attributes. An attribute
  that the map does not bind is one whose read raises \<^verbatim>\<open>AttributeError\<close>: it does
  not exist, or its descriptor refuses the access.
\<close>

record model_class =
  cls_name :: string
  meta :: model_options
  attrs :: "string \<rightharpoonup> pyval"

text \<open>\<^verbatim>\<open>settings.DATABASES\<close>: a dictionary from alias to a dictionary of options.\<close>

type_synonym databases = "string \<rightharpoonup> (string \<rightharpoonup> pyval)"

section \<open>Exceptions\<close>

text \<open>
  The eight messages of \<^verbatim>\<open>ShardedModelInitializationException\<close>, in the order of
  the source (lines 17, 20, 32, 35, 38, 51, 59 and 68). The message of line 59 is
  formatted with \<^verbatim>\<open>cls.__name__\<close>, that of \<^verbatim>\<open>NonExistentDatabaseException\<close> with
  \<^verbatim>\<open>cls._meta.model_name\<close> and the database argument.
\<close>

datatype init_error =
    BothShardedAndStored
  | NeitherShardedNorStored
  | RequiresShardedIDField
  | RequiresShardedPrimaryKey
  | RequiresGetShard
  | RequiresShardManager
  | AbstractRequiresShardManager string
  | RequiresGetShardFromId

datatype exn =
    ShardedModelInitializationException init_error
  | NonExistentDatabaseException string pyval
  | AttributeError string

section \<open>Attribute access\<close>

text \<open>\<^verbatim>\<open>cls.name\<close>: \<open>None\<close> stands for the \<^verbatim>\<open>AttributeError\<close>.\<close>

definition getattr :: "model_class \<Rightarrow> string \<Rightarrow> pyval option" where
  "getattr cls name = attrs cls name"

text \<open>\<^verbatim>\<open>getattr(cls, name, default)\<close>.\<close>

definition getattr_default :: "model_class \<Rightarrow> string \<Rightarrow> pyval \<Rightarrow> pyval" where
  "getattr_default cls name d = (case getattr cls name of None \<Rightarrow> d | Some v \<Rightarrow> v)"

text \<open>\<^verbatim>\<open>setattr(cls, name, v)\<close>, returning the class as it is afterwards.\<close>

definition setattr :: "model_class \<Rightarrow> string \<Rightarrow> pyval \<Rightarrow> model_class" where
  "setattr cls name v = cls\<lparr>attrs := (attrs cls)(name \<mapsto> v)\<rparr>"

text \<open>
  Modelled from the spec: \<^verbatim>\<open>cls.add_to_class(name, manager)\<close> is a method of the
  host framework's model base class and is not part of this repository. The
  specification calls what the decorator delegates to it ``manager substitution'':
  afterwards the class has the given manager under the given name. The framework's own
  bookkeeping of managers is outside the repository and is not part of this definition;
  the section on the store takes the whole method as a parameter.
\<close>

definition add_to_class :: "model_class \<Rightarrow> string \<Rightarrow> pyval \<Rightarrow> model_class" where
  "add_to_class cls name manager = setattr cls name manager"

section \<open>The decorator\<close>

text \<open>
  Every step takes the class and returns the exception raised, if any, together with
  the class as the step leaves it: Python mutates the class in place, so what was
  written before a \<^verbatim>\<open>raise\<close> stays written.
\<close>

type_synonym step_result = "exn option \<times> model_class"

text \<open>
  Lines 54 to 65, the handler of \<^verbatim>\<open>AttributeError\<close>. \<open>e\<close> is the caught
  exception, which \<^verbatim>\<open>raise e\<close> passes on for a class that is not abstract.
\<close>

definition except_AttributeError :: "exn \<Rightarrow> model_class \<Rightarrow> step_result" where
  "except_AttributeError e cls =
     (if abstract (meta cls) then
        if \<not> length (abstract_managers (meta cls)) > 0 then
          (None, add_to_class cls ''objects'' (PyManager ShardManager))
        else if \<not> list_ex (\<lambda>x. isinstance_ShardManager (snd (snd x))) (abstract_managers (meta cls)) then
          (Some (ShardedModelInitializationException (AbstractRequiresShardManager (cls_name cls))), cls)
        else (None, cls)
      else (Some e, cls))"

text \<open>
  Lines 45 to 65, the \<^verbatim>\<open>try\<close> statement. \<^verbatim>\<open>cls.objects\<close> is read at line 46
  (and again, with the same result, at line 47) and once more at line 49, after
  \<^verbatim>\<open>add_to_class\<close>; each read that raises \<^verbatim>\<open>AttributeError\<close> enters the handler.
\<close>

definition manager_step :: "model_class \<Rightarrow> step_result" where
  "manager_step cls =
     (case getattr cls ''objects'' of
        None \<Rightarrow> except_AttributeError (AttributeError ''objects'') cls
      | Some objects \<Rightarrow>
          if \<not> isinstance_ShardManager objects then
            if type_is_Manager objects then
              (let cls1 = add_to_class cls ''objects'' (PyManager ShardManager) in
               case getattr cls1 ''objects'' of
                 None \<Rightarrow> except_AttributeError (AttributeError ''objects'') cls1
               | Some objects1 \<Rightarrow> (None, setattr cls1 ''_base_manager'' objects1))
            else (Some (ShardedModelInitializationException RequiresShardManager), cls)
          else (None, cls))"

text \<open>Lines 44 to 69, the body of \<^verbatim>\<open>if sharded_by_field\<close>.\<close>

definition sharded_by_field_step :: "pyval \<Rightarrow> model_class \<Rightarrow> step_result" where
  "sharded_by_field_step sharded_by_field cls =
     (case manager_step cls of
        (Some e, cls1) \<Rightarrow> (Some e, cls1)
      | (None, cls1) \<Rightarrow>
          (let cls2 = setattr cls1 ''django_sharding__sharded_by_field'' sharded_by_field in
           if \<not> callable (getattr_default cls2 ''get_shard_from_id'' PyNone) then
             (Some (ShardedModelInitializationException RequiresGetShardFromId), cls2)
           else (None, cls2)))"

text \<open>Line 30: the fields whose type is a subclass of \<^verbatim>\<open>ShardedIDFieldMixin\<close>.\<close>

definition sharded_fields :: "model_class \<Rightarrow> model_field list" where
  "sharded_fields cls = filter (\<lambda>field. sharded_id_field field) (meta_fields (meta cls))"

text \<open>Lines 30 to 69, the body of \<^verbatim>\<open>if shard_group\<close>.\<close>

definition shard_group_step :: "pyval \<Rightarrow> pyval \<Rightarrow> model_class \<Rightarrow> step_result" where
  "shard_group_step shard_group sharded_by_field cls =
     (if sharded_fields cls = [] then
        (Some (ShardedModelInitializationException RequiresShardedIDField), cls)
      else if filter (\<lambda>field. Some field = pk (meta cls)) (sharded_fields cls) = [] then
        (Some (ShardedModelInitializationException RequiresShardedPrimaryKey), cls)
      else if \<not> callable (getattr_default cls ''get_shard'' PyNone) then
        (Some (ShardedModelInitializationException RequiresGetShard), cls)
      else
        (let cls1 = setattr cls ''django_sharding__shard_group'' shard_group;
             cls2 = setattr cls1 ''django_sharding__is_sharded'' (PyBool True)
         in if truthy sharded_by_field then sharded_by_field_step sharded_by_field cls2
            else (None, cls2)))"

text \<open>
  Line 23: \<^verbatim>\<open>database not in settings.DATABASES or
  settings.DATABASES[database].get('PRIMARY')\<close>. The aliases are strings, so a value
  that is not a string is no key.
\<close>

definition not_a_primary_database :: "databases \<Rightarrow> pyval \<Rightarrow> bool" where
  "not_a_primary_database dbs database =
     (case database of
        PyStr alias \<Rightarrow>
          (case dbs alias of
             None \<Rightarrow> True
           | Some entry \<Rightarrow> truthy (case entry ''PRIMARY'' of None \<Rightarrow> PyNone | Some v \<Rightarrow> v))
      | _ \<Rightarrow> True)"

text \<open>Lines 23 to 27, the body of \<^verbatim>\<open>if database\<close>.\<close>

definition database_step :: "databases \<Rightarrow> pyval \<Rightarrow> model_class \<Rightarrow> step_result" where
  "database_step dbs database cls =
     (if not_a_primary_database dbs database then
        (Some (NonExistentDatabaseException (model_name (meta cls)) database), cls)
      else (None, setattr cls ''django_sharding__database'' database))"

text \<open>
  Lines 15 to 71: \<^verbatim>\<open>configure(cls)\<close>, with the three captured arguments and
  \<^verbatim>\<open>settings.DATABASES\<close> as parameters. A result \<open>(None, cls')\<close> is
  \<^verbatim>\<open>return cls\<close> with the class in state \<open>cls'\<close>.
\<close>

definition configure ::
  "pyval \<Rightarrow> pyval \<Rightarrow> pyval \<Rightarrow> databases \<Rightarrow> model_class \<Rightarrow> step_result" where
  "configure shard_group database sharded_by_field dbs cls =
     (if truthy database \<and> truthy shard_group then
        (Some (ShardedModelInitializationException BothShardedAndStored), cls)
      else if \<not> truthy database \<and> \<not> truthy shard_group then
        (Some (ShardedModelInitializationException NeitherShardedNorStored), cls)
      else
        (case (if truthy database then database_step dbs database cls else (None, cls)) of
           (Some e, cls1) \<Rightarrow> (Some e, cls1)
         | (None, cls1) \<Rightarrow>
             if truthy shard_group then shard_group_step shard_group sharded_by_field cls1
             else (None, cls1)))"

section \<open>The decorator in the store\<close>

text \<open>
  \<open>configure\<close> above follows one class. What the decorator does to the rest of the
  program is a question about the store: the settings, every class object behind its
  reference with the attributes of its own \<^verbatim>\<open>__dict__\<close> and its \<^verbatim>\<open>_meta\<close>, and
  for each class the classes it inherits from, in resolution order
  (\<^verbatim>\<open>cls.__mro__[1:]\<close>).
\<close>

record world =
  DATABASES :: databases
  classes :: "nat \<Rightarrow> model_class"
  ancestors :: "nat \<Rightarrow> nat list"

text \<open>
  \<^verbatim>\<open>cls.name\<close>: the first class in resolution order, starting with the class itself,
  whose own attributes bind the name; \<open>None\<close> stands for the \<^verbatim>\<open>AttributeError\<close>.
\<close>

definition lookup :: "world \<Rightarrow> nat \<Rightarrow> string \<Rightarrow> pyval option" where
  "lookup w cls name =
     (case List.find (\<lambda>k. attrs (classes w k) name \<noteq> None) (cls # ancestors w cls) of
        None \<Rightarrow> None
      | Some k \<Rightarrow> attrs (classes w k) name)"

text \<open>\<^verbatim>\<open>getattr(cls, name, default)\<close>.\<close>

definition lookup_default :: "world \<Rightarrow> nat \<Rightarrow> string \<Rightarrow> pyval \<Rightarrow> pyval" where
  "lookup_default w cls name d = (case lookup w cls name of None \<Rightarrow> d | Some v \<Rightarrow> v)"

text \<open>
  \<^verbatim>\<open>setattr(cls, name, v)\<close> and \<^verbatim>\<open>cls.name = v\<close> write the own attributes of the
  class object.
\<close>

definition store_setattr :: "world \<Rightarrow> nat \<Rightarrow> string \<Rightarrow> pyval \<Rightarrow> world" where
  "store_setattr w cls name v = w\<lparr>classes := (classes w)(cls := setattr (classes w cls) name v)\<rparr>"

text \<open>
  \<^verbatim>\<open>cls.add_to_class(name, manager)\<close> is a method of the host framework and not part
  of this repository, so in the store it is a parameter of the decorator: any function
  from the store, the class, the name and the manager to the store.
\<close>

type_synonym framework_add_to_class = "world \<Rightarrow> nat \<Rightarrow> string \<Rightarrow> pyval \<Rightarrow> world"

type_synonym store_result = "exn option \<times> world"

text \<open>Lines 54 to 65, the handler of \<^verbatim>\<open>AttributeError\<close>.\<close>

definition handle_AttributeError ::
  "framework_add_to_class \<Rightarrow> exn \<Rightarrow> nat \<Rightarrow> world \<Rightarrow> store_result" where
  "handle_AttributeError add e cls w =
     (if abstract (meta (classes w cls)) then
        if \<not> length (abstract_managers (meta (classes w cls))) > 0 then
          (None, add w cls ''objects'' (PyManager ShardManager))
        else if \<not> list_ex (\<lambda>x. isinstance_ShardManager (snd (snd x)))
                     (abstract_managers (meta (classes w cls))) then
          (Some (ShardedModelInitializationException
                   (AbstractRequiresShardManager (cls_name (classes w cls)))), w)
        else (None, w)
      else (Some e, w))"

text \<open>Lines 45 to 65, the \<^verbatim>\<open>try\<close> statement.\<close>

definition try_managers :: "framework_add_to_class \<Rightarrow> nat \<Rightarrow> world \<Rightarrow> store_result" where
  "try_managers add cls w =
     (case lookup w cls ''objects'' of
        None \<Rightarrow> handle_AttributeError add (AttributeError ''objects'') cls w
      | Some objects \<Rightarrow>
          if \<not> isinstance_ShardManager objects then
            if type_is_Manager objects then
              (let w1 = add w cls ''objects'' (PyManager ShardManager) in
               case lookup w1 cls ''objects'' of
                 None \<Rightarrow> handle_AttributeError add (AttributeError ''objects'') cls w1
               | Some objects1 \<Rightarrow> (None, store_setattr w1 cls ''_base_manager'' objects1))
            else (Some (ShardedModelInitializationException RequiresShardManager), w)
          else (None, w))"

text \<open>Lines 44 to 69, the body of \<^verbatim>\<open>if sharded_by_field\<close>.\<close>

definition if_sharded_by_field ::
  "framework_add_to_class \<Rightarrow> pyval \<Rightarrow> nat \<Rightarrow> world \<Rightarrow> store_result" where
  "if_sharded_by_field add sharded_by_field cls w =
     (case try_managers add cls w of
        (Some e, w1) \<Rightarrow> (Some e, w1)
      | (None, w1) \<Rightarrow>
          (let w2 = store_setattr w1 cls ''django_sharding__sharded_by_field'' sharded_by_field in
           if \<not> callable (lookup_default w2 cls ''get_shard_from_id'' PyNone) then
             (Some (ShardedModelInitializationException RequiresGetShardFromId), w2)
           else (None, w2)))"

text \<open>Lines 30 to 69, the body of \<^verbatim>\<open>if shard_group\<close>.\<close>

definition if_shard_group ::
  "framework_add_to_class \<Rightarrow> pyval \<Rightarrow> pyval \<Rightarrow> nat \<Rightarrow> world \<Rightarrow> store_result" where
  "if_shard_group add shard_group sharded_by_field cls w =
     (if sharded_fields (classes w cls) = [] then
        (Some (ShardedModelInitializationException RequiresShardedIDField), w)
      else if filter (\<lambda>field. Some field = pk (meta (classes w cls)))
                (sharded_fields (classes w cls)) = [] then
        (Some (ShardedModelInitializationException RequiresShardedPrimaryKey), w)
      else if \<not> callable (lookup_default w cls ''get_shard'' PyNone) then
        (Some (ShardedModelInitializationException RequiresGetShard), w)
      else
        (let w1 = store_setattr w cls ''django_sharding__shard_group'' shard_group;
             w2 = store_setattr w1 cls ''django_sharding__is_sharded'' (PyBool True)
         in if truthy sharded_by_field then if_sharded_by_field add sharded_by_field cls w2
            else (None, w2)))"

text \<open>Lines 23 to 27, the body of \<^verbatim>\<open>if database\<close>.\<close>

definition if_database :: "pyval \<Rightarrow> nat \<Rightarrow> world \<Rightarrow> store_result" where
  "if_database database cls w =
     (if not_a_primary_database (DATABASES w) database then
        (Some (NonExistentDatabaseException (model_name (meta (classes w cls))) database), w)
      else (None, store_setattr w cls ''django_sharding__database'' database))"

text \<open>
  \<^verbatim>\<open>model_config(shard_group, database, sharded_by_field)(cls)\<close> run in a store,
  lines 15 to 71: it raises, or it returns a reference (\<^verbatim>\<open>return cls\<close>), and it
  leaves a store behind in both cases.
\<close>

datatype outcome = Returned nat | Raised exn

definition model_config ::
  "framework_add_to_class \<Rightarrow> pyval \<Rightarrow> pyval \<Rightarrow> pyval \<Rightarrow> nat \<Rightarrow> world \<Rightarrow> outcome \<times> world" where
  "model_config add shard_group database sharded_by_field cls w =
     (if truthy database \<and> truthy shard_group then
        (Raised (ShardedModelInitializationException BothShardedAndStored), w)
      else if \<not> truthy database \<and> \<not> truthy shard_group then
        (Raised (ShardedModelInitializationException NeitherShardedNorStored), w)
      else
        (case (if truthy database then if_database database cls w else (None, w)) of
           (Some e, w1) \<Rightarrow> (Raised e, w1)
         | (None, w1) \<Rightarrow>
             (case (if truthy shard_group
                    then if_shard_group add shard_group sharded_by_field cls w1
                    else (None, w1)) of
                (Some e, w2) \<Rightarrow> (Raised e, w2)
              | (None, w2) \<Rightarrow> (Returned cls, w2))))"

section \<open>What a run may change\<close>

text \<open>
  \<open>confined F cls w w'\<close>: the store \<open>w'\<close> differs from \<open>w\<close> at most in the own
  attributes \<open>F\<close> of the class \<open>cls\<close> and in the manager list of its \<^verbatim>\<open>_meta\<close>.
  The settings, the inheritance order, every other class object, and the name and the
  rest of \<^verbatim>\<open>_meta\<close> of \<open>cls\<close> are the same.
\<close>

definition confined :: "string set \<Rightarrow> nat \<Rightarrow> world \<Rightarrow> world \<Rightarrow> bool" where
  "confined F cls w w' \<longleftrightarrow>
     DATABASES w' = DATABASES w \<and>
     ancestors w' = ancestors w \<and>
     (\<forall>c. c \<noteq> cls \<longrightarrow> classes w' c = classes w c) \<and>
     cls_name (classes w' cls) = cls_name (classes w cls) \<and>
     model_name (meta (classes w' cls)) = model_name (meta (classes w cls)) \<and>
     meta_fields (meta (classes w' cls)) = meta_fields (meta (classes w cls)) \<and>
     pk (meta (classes w' cls)) = pk (meta (classes w cls)) \<and>
     abstract (meta (classes w' cls)) = abstract (meta (classes w cls)) \<and>
     (\<forall>name. name \<notin> F \<longrightarrow> attrs (classes w' cls) name = attrs (classes w cls) name)"

text \<open>The six attributes the claim names.\<close>

definition decorator_attributes :: "string set" where
  "decorator_attributes =
     {''django_sharding__database'', ''django_sharding__shard_group'',
      ''django_sharding__is_sharded'', ''django_sharding__sharded_by_field'',
      ''objects'', ''_base_manager''}"

text \<open>
  What is asked of the framework: \<^verbatim>\<open>cls.add_to_class(name, manager)\<close> changes
  nothing but the class it is called on, and there the attribute of that name, the
  attributes \<open>F\<close> and the manager list of \<^verbatim>\<open>_meta\<close>.
\<close>

definition framework_confined :: "string set \<Rightarrow> framework_add_to_class \<Rightarrow> bool" where
  "framework_confined F add \<longleftrightarrow>
     (\<forall>w cls name manager. confined (insert name F) cls w (add w cls name manager))"

text \<open>
  Two framework operations. The first only binds the manager under the name; it is the
  one \<open>add_to_class\<close> above stands for.
\<close>

definition binding_add_to_class :: framework_add_to_class where
  "binding_add_to_class w cls name manager =
     w\<lparr>classes := (classes w)(cls := add_to_class (classes w cls) name manager)\<rparr>"

text \<open>
  The second registers the manager as the framework versions with
  \<^verbatim>\<open>_meta.abstract_managers\<close> do in \<^verbatim>\<open>Manager.contribute_to_class\<close>: on an
  abstract model the descriptor installed under the name refuses the read, so the class
  binds no value there, and on any other model the name is bound to the manager; the
  manager becomes \<^verbatim>\<open>_default_manager\<close> when the model has none (the new manager is
  the youngest, so it replaces no older default); and on an abstract model the triple of
  the manager's creation counter, the name and the manager is appended to
  \<^verbatim>\<open>_meta.abstract_managers\<close> (on any other model to
  \<^verbatim>\<open>_meta.concrete_managers\<close>, a list the decorator never reads and
  \<open>model_options\<close> does not carry). \<open>counter\<close> is the creation counter the
  framework gave the manager.
\<close>

definition registering_add_to_class :: "nat \<Rightarrow> framework_add_to_class" where
  "registering_add_to_class counter w cls name manager =
     (let w1 = (if abstract (meta (classes w cls))
                then w\<lparr>classes := (classes w)
                       (cls := (classes w cls)\<lparr>attrs := (attrs (classes w cls))(name := None)\<rparr>)\<rparr>
                else store_setattr w cls name manager);
          w2 = (if \<not> truthy (lookup_default w1 cls ''_default_manager'' PyNone)
                then store_setattr w1 cls ''_default_manager'' manager
                else w1)
      in if abstract (meta (classes w2 cls))
         then w2\<lparr>classes := (classes w2)
                (cls := (classes w2 cls)\<lparr>meta := (meta (classes w2 cls))
                   \<lparr>abstract_managers :=
                      abstract_managers (meta (classes w2 cls)) @ [(counter, name, manager)]\<rparr>\<rparr>)\<rparr>
         else w2)"

section \<open>The validations as predicates\<close>

text \<open>
  The three tests of lines 31, 34 and 37 all pass: the list of line 30 is not empty,
  the primary key is in it, and \<^verbatim>\<open>get_shard\<close> is callable.
\<close>

definition passes_validations :: "model_class \<Rightarrow> bool" where
  "passes_validations cls =
     (sharded_fields cls \<noteq> [] \<and>
      filter (\<lambda>field. Some field = pk (meta cls)) (sharded_fields cls) \<noteq> [] \<and>
      callable (getattr_default cls ''get_shard'' PyNone))"

section \<open>Example settings and classes\<close>

text \<open>A primary database \<^verbatim>\<open>default\<close> and a replica of it.\<close>

definition example_databases :: databases where
  "example_databases =
     [''default'' \<mapsto> Map.empty, ''replica'' \<mapsto> [''PRIMARY'' \<mapsto> PyStr ''default'']]"

definition id_field :: model_field where
  "id_field = \<lparr>field_name = ''id'', sharded_id_field = True\<rparr>"

definition name_field :: model_field where
  "name_field = \<lparr>field_name = ''name'', sharded_id_field = False\<rparr>"

text \<open>
  A model written for sharding: a sharded primary key, the default manager and both
  methods.
\<close>

definition sharded_user :: model_class where
  "sharded_user =
     \<lparr>cls_name = ''User'',
      meta = \<lparr>model_name = ''user'', meta_fields = [id_field, name_field],
              pk = Some id_field, abstract = False, abstract_managers = []\<rparr>,
      attrs = [''objects'' \<mapsto> PyManager Manager,
               ''get_shard'' \<mapsto> PyFunc ''get_shard'',
               ''get_shard_from_id'' \<mapsto> PyFunc ''get_shard_from_id'']\<rparr>"



text \<open>An ordinary model: no sharded field, the default manager, no methods.\<close>

definition plain_user :: model_class where
  "plain_user =
     \<lparr>cls_name = ''User'',
      meta = \<lparr>model_name = ''user'', meta_fields = [name_field],
              pk = Some name_field, abstract = False, abstract_managers = []\<rparr>,
      attrs = [''objects'' \<mapsto> PyManager Manager]\<rparr>"

text \<open>
  An abstract base model written for sharding: the sharded primary key and both
  methods, no manager, so that \<^verbatim>\<open>objects\<close> cannot be read.
\<close>

definition abstract_user :: model_class where
  "abstract_user =
     \<lparr>cls_name = ''AbstractUser'',
      meta = \<lparr>model_name = ''abstractuser'', meta_fields = [id_field, name_field],
              pk = Some id_field, abstract = True, abstract_managers = []\<rparr>,
      attrs = [''get_shard'' \<mapsto> PyFunc ''get_shard'',
               ''get_shard_from_id'' \<mapsto> PyFunc ''get_shard_from_id'']\<rparr>"

text \<open>
  A store with these settings: behind reference 0 the abstract base model, behind every
  other reference an ordinary model, the one behind reference 1 a subclass of the base.
\<close>

definition example_world :: world where
  "example_world =
     \<lparr>DATABASES = example_databases,
      classes = (\<lambda>c. if c = 0 then abstract_user else plain_user),
      ancestors = (\<lambda>c. if c = 1 then [0] else [])\<rparr>"

section \<open>Properties of the steps\<close>

text \<open>Reading after writing, and what \<open>setattr\<close> leaves alone.\<close>

lemma getattr_setattr:
  "getattr (setattr cls name v) name' = (if name' = name then Some v else getattr cls name')"
  by (simp add: getattr_def setattr_def)

lemma meta_setattr: "meta (setattr cls name v) = meta cls"
  by (simp add: setattr_def)

lemma cls_name_setattr: "cls_name (setattr cls name v) = cls_name cls"
  by (simp add: setattr_def)

text \<open>
  With a shard group and no database, \<open>configure\<close> is the body of
  \<^verbatim>\<open>if shard_group\<close>.
\<close>

lemma configure_sharded:
  "truthy shard_group \<Longrightarrow> \<not> truthy database \<Longrightarrow>
   configure shard_group database sharded_by_field dbs cls =
     shard_group_step shard_group sharded_by_field cls"
  by (simp add: configure_def)

text \<open>
  The three tests in words: some field is a sharded ID field, one of the sharded ID
  fields is the primary key, and \<^verbatim>\<open>get_shard\<close> is callable.
\<close>

lemma passes_validations_iff:
  "passes_validations cls \<longleftrightarrow>
     (\<exists>f \<in> set (meta_fields (meta cls)). sharded_id_field f) \<and>
     (\<exists>f \<in> set (meta_fields (meta cls)). sharded_id_field f \<and> pk (meta cls) = Some f) \<and>
     callable (getattr_default cls ''get_shard'' PyNone)"
  by (auto simp: passes_validations_def sharded_fields_def filter_empty_conv)

text \<open>A failed validation raises before anything is written.\<close>

lemma shard_group_step_fails:
  "\<not> passes_validations cls \<Longrightarrow>
   \<exists>reason. shard_group_step shard_group sharded_by_field cls =
     (Some (ShardedModelInitializationException reason), cls)"
  by (auto simp: passes_validations_def shard_group_step_def)

lemma shard_group_step_passes:
  "passes_validations cls \<Longrightarrow>
   shard_group_step shard_group sharded_by_field cls =
     (let cls2 = setattr (setattr cls ''django_sharding__shard_group'' shard_group)
                   ''django_sharding__is_sharded'' (PyBool True)
      in if truthy sharded_by_field then sharded_by_field_step sharded_by_field cls2
         else (None, cls2))"
  by (simp add: passes_validations_def shard_group_step_def Let_def)

text \<open>What each step may change: the frame of the handler, of the \<^verbatim>\<open>try\<close> statement, and so on outwards.\<close>

lemma except_AttributeError_frame:
  assumes "except_AttributeError e cls = (r, cls')"
  shows "cls_name cls' = cls_name cls \<and> meta cls' = meta cls \<and>
         (\<forall>name. name \<noteq> ''objects'' \<longrightarrow> getattr cls' name = getattr cls name)"
  using assms
  by (auto simp: except_AttributeError_def add_to_class_def getattr_setattr meta_setattr
      cls_name_setattr split: if_splits)

lemma manager_step_frame:
  assumes "manager_step cls = (r, cls')"
  shows "cls_name cls' = cls_name cls \<and> meta cls' = meta cls \<and>
         (\<forall>name. name \<noteq> ''objects'' \<longrightarrow> name \<noteq> ''_base_manager'' \<longrightarrow>
            getattr cls' name = getattr cls name)"
proof (cases "getattr cls ''objects''")
  case None
  with assms have "except_AttributeError (AttributeError ''objects'') cls = (r, cls')"
    by (simp add: manager_step_def)
  from except_AttributeError_frame [OF this] show ?thesis by simp
next
  case (Some objects)
  with assms show ?thesis
    by (auto simp: manager_step_def add_to_class_def getattr_setattr meta_setattr
        cls_name_setattr Let_def split: if_splits)
qed

text \<open>
  The manager handling passes (raises nothing) exactly when \<^verbatim>\<open>cls.objects\<close> is a
  \<^verbatim>\<open>ShardManager\<close> or a plain \<^verbatim>\<open>Manager\<close>, or is unreadable on an abstract
  class that has no abstract manager or has a \<^verbatim>\<open>ShardManager\<close> among them.
\<close>

lemma manager_step_passes_iff:
  "fst (manager_step cls) = None \<longleftrightarrow>
     (case getattr cls ''objects'' of
        Some objects \<Rightarrow> isinstance_ShardManager objects \<or> type_is_Manager objects
      | None \<Rightarrow> abstract (meta cls) \<and>
          (abstract_managers (meta cls) = [] \<or>
           (\<exists>x \<in> set (abstract_managers (meta cls)). isinstance_ShardManager (snd (snd x)))))"
  by (auto simp: manager_step_def except_AttributeError_def add_to_class_def getattr_setattr
      Let_def list_ex_iff split: option.splits)

text \<open>Whether it passes does not depend on attributes other than \<^verbatim>\<open>objects\<close>.\<close>

lemma manager_step_other_attr:
  assumes "name \<noteq> ''objects''"
  shows "fst (manager_step (setattr cls name v)) = fst (manager_step cls)"
  using assms
  by (auto simp: manager_step_def except_AttributeError_def add_to_class_def getattr_setattr
      meta_setattr cls_name_setattr Let_def split: option.splits)

lemma sharded_by_field_step_frame:
  assumes "sharded_by_field_step sharded_by_field cls = (r, cls')"
  shows "cls_name cls' = cls_name cls \<and> meta cls' = meta cls \<and>
         (\<forall>name. name \<noteq> ''objects'' \<longrightarrow> name \<noteq> ''_base_manager'' \<longrightarrow>
            name \<noteq> ''django_sharding__sharded_by_field'' \<longrightarrow>
            getattr cls' name = getattr cls name)"
proof -
  obtain r1 cls1 where m: "manager_step cls = (r1, cls1)"
    by (cases "manager_step cls")
  note f = manager_step_frame [OF m]
  show ?thesis
  proof (cases r1)
    case (Some e)
    with assms m have "cls' = cls1"
      by (simp add: sharded_by_field_step_def)
    with f show ?thesis by simp
  next
    case None
    with assms m
    have "cls' = setattr cls1 ''django_sharding__sharded_by_field'' sharded_by_field"
      by (simp add: sharded_by_field_step_def Let_def split: if_splits)
    with f show ?thesis
      by (simp add: getattr_setattr meta_setattr cls_name_setattr)
  qed
qed

lemma sharded_by_field_step_passes:
  assumes "fst (manager_step cls) = None"
  shows "sharded_by_field_step sharded_by_field cls =
           (let cls2 = setattr (snd (manager_step cls)) ''django_sharding__sharded_by_field''
                         sharded_by_field
            in if \<not> callable (getattr_default cls2 ''get_shard_from_id'' PyNone)
               then (Some (ShardedModelInitializationException RequiresGetShardFromId), cls2)
               else (None, cls2))"
  using assms by (cases "manager_step cls") (simp add: sharded_by_field_step_def)

lemma shard_group_step_frame:
  assumes "shard_group_step shard_group sharded_by_field cls = (r, cls')"
  shows "cls_name cls' = cls_name cls \<and> meta cls' = meta cls \<and>
         (\<forall>name. name \<noteq> ''objects'' \<longrightarrow> name \<noteq> ''_base_manager'' \<longrightarrow>
            name \<noteq> ''django_sharding__sharded_by_field'' \<longrightarrow>
            name \<noteq> ''django_sharding__shard_group'' \<longrightarrow>
            name \<noteq> ''django_sharding__is_sharded'' \<longrightarrow>
            getattr cls' name = getattr cls name)"
proof (cases "passes_validations cls")
  case False
  from shard_group_step_fails [OF this, of shard_group sharded_by_field] assms
  show ?thesis by auto
next
  case True
  let ?cls2 = "setattr (setattr cls ''django_sharding__shard_group'' shard_group)
                 ''django_sharding__is_sharded'' (PyBool True)"
  show ?thesis
  proof (cases "truthy sharded_by_field")
    case False
    with True assms have "cls' = ?cls2"
      by (simp add: shard_group_step_passes Let_def)
    then show ?thesis
      by (simp add: getattr_setattr meta_setattr cls_name_setattr)
  next
    case sbf: True
    with True assms have "sharded_by_field_step sharded_by_field ?cls2 = (r, cls')"
      by (simp add: shard_group_step_passes Let_def)
    from sharded_by_field_step_frame [OF this] show ?thesis
      by (simp add: getattr_setattr meta_setattr cls_name_setattr)
  qed
qed

lemma configure_frame:
  assumes "configure shard_group database sharded_by_field dbs cls = (r, cls')"
  shows "cls_name cls' = cls_name cls \<and> meta cls' = meta cls \<and>
         (\<forall>name. name \<noteq> ''objects'' \<longrightarrow> name \<noteq> ''_base_manager'' \<longrightarrow>
            name \<noteq> ''django_sharding__sharded_by_field'' \<longrightarrow>
            name \<noteq> ''django_sharding__shard_group'' \<longrightarrow>
            name \<noteq> ''django_sharding__is_sharded'' \<longrightarrow>
            name \<noteq> ''django_sharding__database'' \<longrightarrow>
            getattr cls' name = getattr cls name)"
proof (cases "truthy shard_group")
  case sg: True
  show ?thesis
  proof (cases "truthy database")
    case True
    with sg assms show ?thesis by (simp add: configure_def)
  next
    case False
    with sg assms have "shard_group_step shard_group sharded_by_field cls = (r, cls')"
      by (simp add: configure_sharded)
    from shard_group_step_frame [OF this] show ?thesis by simp
  qed
next
  case False
  with assms show ?thesis
    by (auto simp: configure_def database_step_def getattr_setattr meta_setattr
        cls_name_setattr split: if_splits)
qed

text \<open>
  A run that reaches line 66: the class as the run leaves it, \<open>cls3\<close>, carries the
  three sharding attributes, and the outcome is decided by \<^verbatim>\<open>get_shard_from_id\<close>
  alone.
\<close>

lemma configure_reaches_line_66:
  assumes "truthy shard_group" and "\<not> truthy database" and "truthy sharded_by_field"
    and "passes_validations cls" and "fst (manager_step cls) = None"
  shows "\<exists>cls3.
           getattr cls3 ''django_sharding__shard_group'' = Some shard_group \<and>
           getattr cls3 ''django_sharding__is_sharded'' = Some (PyBool True) \<and>
           getattr cls3 ''django_sharding__sharded_by_field'' = Some sharded_by_field \<and>
           getattr_default cls3 ''get_shard_from_id'' PyNone =
             getattr_default cls ''get_shard_from_id'' PyNone \<and>
           (getattr cls ''objects'' = Some (PyManager Manager) \<longrightarrow>
              getattr cls3 ''objects'' = Some (PyManager ShardManager)) \<and>
           configure shard_group database sharded_by_field dbs cls =
             (if \<not> callable (getattr_default cls3 ''get_shard_from_id'' PyNone)
              then (Some (ShardedModelInitializationException RequiresGetShardFromId), cls3)
              else (None, cls3))"
proof -
  let ?cls2 = "setattr (setattr cls ''django_sharding__shard_group'' shard_group)
                 ''django_sharding__is_sharded'' (PyBool True)"
  let ?clsm = "snd (manager_step ?cls2)"
  let ?cls3 = "setattr ?clsm ''django_sharding__sharded_by_field'' sharded_by_field"
  have m: "fst (manager_step ?cls2) = None"
    using assms(5) by (simp add: manager_step_other_attr)
  then have ms: "manager_step ?cls2 = (None, ?clsm)"
    by (metis prod.collapse)
  note f = manager_step_frame [OF ms]
  have c: "configure shard_group database sharded_by_field dbs cls =
             (if \<not> callable (getattr_default ?cls3 ''get_shard_from_id'' PyNone)
              then (Some (ShardedModelInitializationException RequiresGetShardFromId), ?cls3)
              else (None, ?cls3))"
    using assms(1-4) m
    by (simp add: configure_sharded shard_group_step_passes sharded_by_field_step_passes
        Let_def)
  have g: "getattr ?cls3 ''django_sharding__shard_group'' = Some shard_group"
    "getattr ?cls3 ''django_sharding__is_sharded'' = Some (PyBool True)"
    "getattr ?cls3 ''django_sharding__sharded_by_field'' = Some sharded_by_field"
    "getattr ?cls3 ''get_shard_from_id'' = getattr cls ''get_shard_from_id''"
    using f by (simp_all add: getattr_setattr)
  then have d: "getattr_default ?cls3 ''get_shard_from_id'' PyNone =
      getattr_default cls ''get_shard_from_id'' PyNone"
    by (simp add: getattr_default_def)
  have o: "getattr ?cls3 ''objects'' = Some (PyManager ShardManager)"
    if "getattr cls ''objects'' = Some (PyManager Manager)"
  proof -
    from that have "getattr ?cls2 ''objects'' = Some (PyManager Manager)"
      by (simp add: getattr_setattr)
    then have "getattr ?clsm ''objects'' = Some (PyManager ShardManager)"
      by (simp add: manager_step_def add_to_class_def Let_def getattr_setattr)
    then show ?thesis by (simp add: getattr_setattr)
  qed
  from g(1-3) d o c show ?thesis by blast
qed

text \<open>The example model passes the validations, whatever its other attributes.\<close>

lemma passes_validations_sharded_user: "passes_validations sharded_user"
  by (simp add: passes_validations_def sharded_fields_def sharded_user_def id_field_def
      name_field_def getattr_default_def getattr_def)


section \<open>Properties of a run in the store\<close>

text \<open>The relation \<open>confined\<close>: it composes, widens, and holds of each write.\<close>

lemma confined_refl: "confined F cls w w"
  by (simp add: confined_def)

lemma confined_trans:
  "confined F cls w w1 \<Longrightarrow> confined F cls w1 w2 \<Longrightarrow> confined F cls w w2"
  by (simp add: confined_def)

lemma confined_mono: "confined F cls w w' \<Longrightarrow> F \<subseteq> G \<Longrightarrow> confined G cls w w'"
  unfolding confined_def by blast

lemma confined_store_setattr:
  "name \<in> F \<Longrightarrow> confined F cls w (store_setattr w cls name v)"
  by (auto simp: confined_def store_setattr_def setattr_def)

lemma confined_then_setattr:
  assumes "confined F cls w w1" and "name \<in> F"
  shows "confined F cls w (store_setattr w1 cls name v)"
  using assms(1) confined_store_setattr [OF assms(2)] by (rule confined_trans)

lemma confined_add:
  assumes "framework_confined F add" and "name \<in> G" and "F \<subseteq> G"
  shows "confined G cls w (add w cls name manager)"
proof -
  from assms(1) have "confined (insert name F) cls w (add w cls name manager)"
    by (simp add: framework_confined_def)
  moreover from assms(2,3) have "insert name F \<subseteq> G" by simp
  ultimately show ?thesis by (rule confined_mono)
qed

lemma decorator_attributes_mem:
  "''django_sharding__database'' \<in> decorator_attributes \<union> F"
  "''django_sharding__shard_group'' \<in> decorator_attributes \<union> F"
  "''django_sharding__is_sharded'' \<in> decorator_attributes \<union> F"
  "''django_sharding__sharded_by_field'' \<in> decorator_attributes \<union> F"
  "''objects'' \<in> decorator_attributes \<union> F"
  "''_base_manager'' \<in> decorator_attributes \<union> F"
  by (simp_all add: decorator_attributes_def)

text \<open>Each step of the decorator stays within the six attributes and the framework's.\<close>

lemma handle_AttributeError_confined:
  assumes "framework_confined F add" and "handle_AttributeError add e cls w = (r, w')"
  shows "confined (decorator_attributes \<union> F) cls w w'"
proof -
  have "w' = w \<or> w' = add w cls ''objects'' (PyManager ShardManager)"
    using assms(2) by (auto simp: handle_AttributeError_def split: if_splits)
  then show ?thesis
  proof
    assume "w' = w"
    then show ?thesis by (simp add: confined_refl)
  next
    assume "w' = add w cls ''objects'' (PyManager ShardManager)"
    then show ?thesis
      using confined_add [OF assms(1) decorator_attributes_mem(5)] by simp
  qed
qed

lemma try_managers_confined:
  assumes "framework_confined F add" and "try_managers add cls w = (r, w')"
  shows "confined (decorator_attributes \<union> F) cls w w'"
proof (cases "lookup w cls ''objects''")
  case None
  with assms(2) have "handle_AttributeError add (AttributeError ''objects'') cls w = (r, w')"
    by (simp add: try_managers_def)
  then show ?thesis by (rule handle_AttributeError_confined [OF assms(1)])
next
  case (Some objects)
  let ?w1 = "add w cls ''objects'' (PyManager ShardManager)"
  have a: "confined (decorator_attributes \<union> F) cls w ?w1"
    using confined_add [OF assms(1) decorator_attributes_mem(5)] by simp
  show ?thesis
  proof (cases "\<not> isinstance_ShardManager objects \<and> type_is_Manager objects")
    case False
    with Some assms(2) have "w' = w"
      by (auto simp: try_managers_def split: if_splits)
    then show ?thesis by (simp add: confined_refl)
  next
    case True
    show ?thesis
    proof (cases "lookup ?w1 cls ''objects''")
      case None
      with True Some assms(2)
      have "handle_AttributeError add (AttributeError ''objects'') cls ?w1 = (r, w')"
        by (simp add: try_managers_def Let_def)
      from a handle_AttributeError_confined [OF assms(1) this]
      show ?thesis by (rule confined_trans)
    next
      case (Some objects1)
      with True \<open>lookup w cls ''objects'' = Some objects\<close> assms(2)
      have "w' = store_setattr ?w1 cls ''_base_manager'' objects1"
        by (simp add: try_managers_def Let_def)
      with confined_then_setattr [OF a decorator_attributes_mem(6)]
      show ?thesis by simp
    qed
  qed
qed

lemma if_sharded_by_field_confined:
  assumes "framework_confined F add"
    and "if_sharded_by_field add sharded_by_field cls w = (r, w')"
  shows "confined (decorator_attributes \<union> F) cls w w'"
proof -
  obtain r1 w1 where t: "try_managers add cls w = (r1, w1)"
    by (cases "try_managers add cls w")
  note c = try_managers_confined [OF assms(1) t]
  show ?thesis
  proof (cases r1)
    case (Some e)
    with assms(2) t have "w' = w1"
      by (simp add: if_sharded_by_field_def)
    with c show ?thesis by simp
  next
    case None
    with assms(2) t
    have "w' = store_setattr w1 cls ''django_sharding__sharded_by_field'' sharded_by_field"
      by (simp add: if_sharded_by_field_def Let_def split: if_splits)
    with confined_then_setattr [OF c decorator_attributes_mem(4)]
    show ?thesis by simp
  qed
qed

lemma if_shard_group_confined:
  assumes "framework_confined F add"
    and "if_shard_group add shard_group sharded_by_field cls w = (r, w')"
  shows "confined (decorator_attributes \<union> F) cls w w'"
proof -
  let ?w1 = "store_setattr w cls ''django_sharding__shard_group'' shard_group"
  let ?w2 = "store_setattr ?w1 cls ''django_sharding__is_sharded'' (PyBool True)"
  have c2: "confined (decorator_attributes \<union> F) cls w ?w2"
    by (rule confined_then_setattr
        [OF confined_store_setattr [OF decorator_attributes_mem(2)]
          decorator_attributes_mem(3)])
  have "w' = w \<or> w' = ?w2 \<or> if_sharded_by_field add sharded_by_field cls ?w2 = (r, w')"
    using assms(2) by (auto simp: if_shard_group_def Let_def split: if_splits)
  then show ?thesis
  proof (elim disjE)
    assume "w' = w"
    then show ?thesis by (simp add: confined_refl)
  next
    assume "w' = ?w2"
    with c2 show ?thesis by simp
  next
    assume "if_sharded_by_field add sharded_by_field cls ?w2 = (r, w')"
    from c2 if_sharded_by_field_confined [OF assms(1) this]
    show ?thesis by (rule confined_trans)
  qed
qed

lemma if_database_confined:
  assumes "if_database database cls w = (r, w')"
  shows "confined (decorator_attributes \<union> F) cls w w'"
proof -
  have "w' = w \<or> w' = store_setattr w cls ''django_sharding__database'' database"
    using assms by (auto simp: if_database_def split: if_splits)
  then show ?thesis
    using confined_store_setattr [OF decorator_attributes_mem(1), of F cls w database]
    by (auto simp: confined_refl)
qed

lemma model_config_steps:
  assumes "framework_confined F add"
    and "model_config add shard_group database sharded_by_field cls w = (out, w')"
  shows "confined (decorator_attributes \<union> F) cls w w'"
proof -
  obtain r1 w1 where
    d: "(if truthy database then if_database database cls w else (None, w)) = (r1, w1)"
    by (cases "if truthy database then if_database database cls w else (None, w)")
  have c1: "confined (decorator_attributes \<union> F) cls w w1"
  proof (cases "truthy database")
    case True
    with d show ?thesis by (simp add: if_database_confined)
  next
    case False
    with d show ?thesis by (simp add: confined_refl)
  qed
  obtain r2 w2 where
    s: "(if truthy shard_group
         then if_shard_group add shard_group sharded_by_field cls w1
         else (None, w1)) = (r2, w2)"
    by (cases "if truthy shard_group
         then if_shard_group add shard_group sharded_by_field cls w1 else (None, w1)")
  have c2: "confined (decorator_attributes \<union> F) cls w1 w2"
  proof (cases "truthy shard_group")
    case True
    with s show ?thesis by (simp add: if_shard_group_confined [OF assms(1)])
  next
    case False
    with s show ?thesis by (simp add: confined_refl)
  qed
  have "w' = w \<or> w' = w1 \<or> w' = w2"
    using assms(2) d s
    by (auto simp: model_config_def split: if_splits option.splits)
  with c1 confined_trans [OF c1 c2] show ?thesis
    by (auto simp: confined_refl)
qed

lemma model_config_returns:
  assumes "model_config add shard_group database sharded_by_field cls w = (Returned r, w')"
  shows "r = cls"
  using assms
  by (auto simp: model_config_def split: if_splits prod.splits option.splits)

text \<open>Both framework operations keep to the class they are called on.\<close>

lemma binding_add_to_class_confined: "framework_confined {} binding_add_to_class"
  by (auto simp: framework_confined_def confined_def binding_add_to_class_def
      add_to_class_def setattr_def)

lemma registering_add_to_class_confined:
  "framework_confined {''_default_manager''} (registering_add_to_class counter)"
  by (auto simp: framework_confined_def confined_def registering_add_to_class_def
      store_setattr_def setattr_def Let_def)

text \<open>
  The two readings of the source agree: for a class whose attributes are all its own,
  with the framework operation that only binds the manager, the run in the store is
  \<open>configure\<close> on the class object, written back behind the same reference.
\<close>

lemma lookup_own:
  "ancestors w cls = [] \<Longrightarrow> lookup w cls name = getattr (classes w cls) name"
  by (simp add: lookup_def getattr_def)

lemma lookup_default_own:
  "ancestors w cls = [] \<Longrightarrow>
   lookup_default w cls name d = getattr_default (classes w cls) name d"
  by (simp add: lookup_default_def getattr_default_def lookup_own)

lemma store_setattr_simps:
  "classes (store_setattr w cls name v) cls = setattr (classes w cls) name v"
  "ancestors (store_setattr w cls name v) = ancestors w"
  "DATABASES (store_setattr w cls name v) = DATABASES w"
  "store_setattr (w\<lparr>classes := (classes w)(cls := c)\<rparr>) cls name v =
     w\<lparr>classes := (classes w)(cls := setattr c name v)\<rparr>"
  by (simp_all add: store_setattr_def)

lemma binding_add_to_class_simps:
  "classes (binding_add_to_class w cls name v) cls = add_to_class (classes w cls) name v"
  "ancestors (binding_add_to_class w cls name v) = ancestors w"
  "binding_add_to_class w cls name v =
     w\<lparr>classes := (classes w)(cls := add_to_class (classes w cls) name v)\<rparr>"
  by (simp_all add: binding_add_to_class_def)

lemma handle_AttributeError_binding:
  "handle_AttributeError binding_add_to_class e cls w =
     (case except_AttributeError e (classes w cls) of
        (r, c) \<Rightarrow> (r, w\<lparr>classes := (classes w)(cls := c)\<rparr>))"
  by (simp add: handle_AttributeError_def except_AttributeError_def
      binding_add_to_class_def)

lemma try_managers_binding:
  assumes "ancestors w cls = []"
  shows "try_managers binding_add_to_class cls w =
     (case manager_step (classes w cls) of
        (r, c) \<Rightarrow> (r, w\<lparr>classes := (classes w)(cls := c)\<rparr>))"
proof (cases "getattr (classes w cls) ''objects''")
  case None
  with assms show ?thesis
    by (simp add: try_managers_def manager_step_def lookup_own
        handle_AttributeError_binding)
next
  case (Some objects)
  let ?w1 = "binding_add_to_class w cls ''objects'' (PyManager ShardManager)"
  have a: "ancestors ?w1 cls = []"
    using assms by (simp add: binding_add_to_class_simps(2))
  have l: "lookup ?w1 cls ''objects'' = Some (PyManager ShardManager)"
    by (simp add: lookup_own [OF a] binding_add_to_class_simps(1) add_to_class_def
        getattr_setattr)
  have g: "getattr (add_to_class (classes w cls) ''objects'' (PyManager ShardManager))
      ''objects'' = Some (PyManager ShardManager)"
    by (simp add: add_to_class_def getattr_setattr)
  show ?thesis
    using Some assms
    by (simp add: try_managers_def manager_step_def lookup_own Let_def l g)
      (simp add: binding_add_to_class_def store_setattr_def)
qed

lemma if_sharded_by_field_binding:
  assumes "ancestors w cls = []"
  shows "if_sharded_by_field binding_add_to_class sharded_by_field cls w =
     (case sharded_by_field_step sharded_by_field (classes w cls) of
        (r, c) \<Rightarrow> (r, w\<lparr>classes := (classes w)(cls := c)\<rparr>))"
proof -
  obtain r1 c1 where m: "manager_step (classes w cls) = (r1, c1)"
    by (cases "manager_step (classes w cls)")
  let ?w1 = "w\<lparr>classes := (classes w)(cls := c1)\<rparr>"
  have t: "try_managers binding_add_to_class cls w = (r1, ?w1)"
    using m by (simp add: try_managers_binding [OF assms])
  let ?w2 = "store_setattr ?w1 cls ''django_sharding__sharded_by_field'' sharded_by_field"
  let ?c2 = "setattr c1 ''django_sharding__sharded_by_field'' sharded_by_field"
  have a: "ancestors ?w2 cls = []"
    using assms by (simp add: store_setattr_simps(2))
  have w2: "?w2 = w\<lparr>classes := (classes w)(cls := ?c2)\<rparr>"
    by (simp add: store_setattr_def)
  have ld: "lookup_default ?w2 cls ''get_shard_from_id'' PyNone =
      getattr_default ?c2 ''get_shard_from_id'' PyNone"
    by (simp add: lookup_default_own [OF a] store_setattr_simps(1))
  show ?thesis
  proof (cases r1)
    case (Some e)
    with m t show ?thesis
      by (simp add: if_sharded_by_field_def sharded_by_field_step_def)
  next
    case None
    with m t show ?thesis
      by (simp add: if_sharded_by_field_def sharded_by_field_step_def Let_def ld)
        (simp add: w2)
  qed
qed

lemma if_shard_group_binding:
  assumes "ancestors w cls = []"
  shows "if_shard_group binding_add_to_class shard_group sharded_by_field cls w =
     (case shard_group_step shard_group sharded_by_field (classes w cls) of
        (r, c) \<Rightarrow> (r, w\<lparr>classes := (classes w)(cls := c)\<rparr>))"
proof -
  let ?w1 = "store_setattr w cls ''django_sharding__shard_group'' shard_group"
  let ?w2 = "store_setattr ?w1 cls ''django_sharding__is_sharded'' (PyBool True)"
  let ?c2 = "setattr (setattr (classes w cls) ''django_sharding__shard_group'' shard_group)
               ''django_sharding__is_sharded'' (PyBool True)"
  have a: "ancestors ?w2 cls = []"
    using assms by (simp add: store_setattr_simps(2))
  have c: "classes ?w2 cls = ?c2"
    by (simp add: store_setattr_simps(1))
  have w2: "?w2 = w\<lparr>classes := (classes w)(cls := ?c2)\<rparr>"
    by (simp add: store_setattr_def)
  have s: "if_sharded_by_field binding_add_to_class sharded_by_field cls ?w2 =
     (case sharded_by_field_step sharded_by_field ?c2 of
        (r, c) \<Rightarrow> (r, w\<lparr>classes := (classes w)(cls := c)\<rparr>))"
    by (simp add: if_sharded_by_field_binding [OF a] c) (simp add: w2)
  show ?thesis
    using assms
    by (simp add: if_shard_group_def shard_group_step_def lookup_default_own Let_def s)
      (simp add: w2)
qed

lemma model_config_binding:
  assumes "ancestors w cls = []"
  shows "model_config binding_add_to_class shard_group database sharded_by_field cls w =
     (case configure shard_group database sharded_by_field (DATABASES w) (classes w cls) of
        (r, c) \<Rightarrow>
          ((case r of None \<Rightarrow> Returned cls | Some e \<Rightarrow> Raised e),
           w\<lparr>classes := (classes w)(cls := c)\<rparr>))"
proof (cases "truthy shard_group")
  case True
  show ?thesis
  proof (cases "truthy database")
    case True
    with \<open>truthy shard_group\<close> show ?thesis
      by (simp add: model_config_def configure_def)
  next
    case False
    obtain r c where s:
      "shard_group_step shard_group sharded_by_field (classes w cls) = (r, c)"
      by (cases "shard_group_step shard_group sharded_by_field (classes w cls)")
    with True False show ?thesis
      by (cases r)
        (simp_all add: model_config_def configure_def if_shard_group_binding [OF assms])
  qed
next
  case False
  then show ?thesis
    by (simp add: model_config_def configure_def if_database_def database_step_def
        store_setattr_def)
qed

section \<open>The claims\<close>

text \<open>
  C1. For every class, a truthy \<^verbatim>\<open>database\<close> together with a truthy
  \<^verbatim>\<open>shard_group\<close> makes the decorator raise
  \<^verbatim>\<open>ShardedModelInitializationException\<close> (line 17), and the class is left as it
  was: no attribute is set and no manager is replaced.
\<close>

theorem configure_both_given:
  assumes "truthy database" and "truthy shard_group"
  shows "configure shard_group database sharded_by_field dbs cls =
           (Some (ShardedModelInitializationException BothShardedAndStored), cls)"
  using assms by (simp add: configure_def)

text \<open>C1 at the example model, with database \<^verbatim>\<open>default\<close> and shard group \<^verbatim>\<open>users\<close>.\<close>

theorem configure_both_given_witness:
  "truthy (PyStr ''default'') \<and> truthy (PyStr ''users'') \<and>
   configure (PyStr ''users'') (PyStr ''default'') PyNone example_databases sharded_user =
     (Some (ShardedModelInitializationException BothShardedAndStored), sharded_user)"
  using configure_both_given
    [of "PyStr ''default''" "PyStr ''users''" PyNone example_databases sharded_user]
  by simp

text \<open>
  C2. For every class decorated with a truthy \<^verbatim>\<open>database\<close> and no
  \<^verbatim>\<open>shard_group\<close>: if the database is not a key of \<^verbatim>\<open>settings.DATABASES\<close>, or
  its entry has a truthy \<^verbatim>\<open>PRIMARY\<close> value, \<^verbatim>\<open>NonExistentDatabaseException\<close> is
  raised (and the class is untouched); otherwise the attribute
  \<^verbatim>\<open>django_sharding__database\<close> is set to the database and the class is returned.
\<close>

theorem configure_database:
  assumes "truthy database" and "\<not> truthy shard_group"
  shows "configure shard_group database sharded_by_field dbs cls =
           (if (\<nexists>alias. database = PyStr alias \<and> alias \<in> dom dbs) \<or>
               (\<exists>alias entry v. database = PyStr alias \<and> dbs alias = Some entry \<and>
                                entry ''PRIMARY'' = Some v \<and> truthy v)
            then (Some (NonExistentDatabaseException (model_name (meta cls)) database), cls)
            else (None, cls\<lparr>attrs := (attrs cls)(''django_sharding__database'' \<mapsto> database)\<rparr>))"
proof -
  have "not_a_primary_database dbs database \<longleftrightarrow>
          (\<nexists>alias. database = PyStr alias \<and> alias \<in> dom dbs) \<or>
          (\<exists>alias entry v. database = PyStr alias \<and> dbs alias = Some entry \<and>
                           entry ''PRIMARY'' = Some v \<and> truthy v)"
    by (cases database) (auto simp: not_a_primary_database_def split: option.splits)
  then show ?thesis
    using assms by (simp add: configure_def database_step_def setattr_def)
qed

text \<open>
  C2 at the ordinary model: the primary \<^verbatim>\<open>default\<close> is accepted, the replica and a
  missing alias are refused.
\<close>

theorem configure_database_witness:
  "truthy (PyStr ''default'') \<and> \<not> truthy PyNone \<and>
   configure PyNone (PyStr ''default'') PyNone example_databases plain_user =
     (None, plain_user\<lparr>attrs := (attrs plain_user)
        (''django_sharding__database'' \<mapsto> PyStr ''default'')\<rparr>) \<and>
   configure PyNone (PyStr ''replica'') PyNone example_databases plain_user =
     (Some (NonExistentDatabaseException ''user'' (PyStr ''replica'')), plain_user) \<and>
   configure PyNone (PyStr ''missing'') PyNone example_databases plain_user =
     (Some (NonExistentDatabaseException ''user'' (PyStr ''missing'')), plain_user)"
  using configure_database [of "PyStr ''default''" PyNone PyNone example_databases plain_user]
    configure_database [of "PyStr ''replica''" PyNone PyNone example_databases plain_user]
    configure_database [of "PyStr ''missing''" PyNone PyNone example_databases plain_user]
  by (simp add: example_databases_def plain_user_def dom_def)

text \<open>
  C3. For every class decorated with a truthy \<^verbatim>\<open>shard_group\<close> and no database that
  passes the validations (the three tests of the fields and of \<^verbatim>\<open>get_shard\<close>; in
  particular every class for which the decorator returns), the decorator sets
  \<^verbatim>\<open>django_sharding__shard_group\<close> to the shard group and
  \<^verbatim>\<open>django_sharding__is_sharded\<close> to \<^verbatim>\<open>True\<close>.
\<close>

theorem configure_sets_shard_group:
  assumes "truthy shard_group" and "\<not> truthy database"
    and "passes_validations cls \<or>
         fst (configure shard_group database sharded_by_field dbs cls) = None"
  shows "getattr (snd (configure shard_group database sharded_by_field dbs cls))
           ''django_sharding__shard_group'' = Some shard_group \<and>
         getattr (snd (configure shard_group database sharded_by_field dbs cls))
           ''django_sharding__is_sharded'' = Some (PyBool True)"
proof -
  let ?cls2 = "setattr (setattr cls ''django_sharding__shard_group'' shard_group)
                 ''django_sharding__is_sharded'' (PyBool True)"
  have c: "configure shard_group database sharded_by_field dbs cls =
             shard_group_step shard_group sharded_by_field cls"
    using assms(1,2) by (rule configure_sharded)
  have p: "passes_validations cls"
  proof (cases "passes_validations cls")
    case False
    from shard_group_step_fails [OF False, of shard_group sharded_by_field] assms(3) c False
    show ?thesis by auto
  qed simp
  show ?thesis
  proof (cases "truthy sharded_by_field")
    case False
    with p c have "snd (configure shard_group database sharded_by_field dbs cls) = ?cls2"
      by (simp add: shard_group_step_passes Let_def)
    then show ?thesis by (simp add: getattr_setattr)
  next
    case True
    with p c have "sharded_by_field_step sharded_by_field ?cls2 =
        (fst (configure shard_group database sharded_by_field dbs cls),
         snd (configure shard_group database sharded_by_field dbs cls))"
      by (simp add: shard_group_step_passes Let_def)
    from sharded_by_field_step_frame [OF this] show ?thesis
      by (simp add: getattr_setattr)
  qed
qed

text \<open>C3 at the example model.\<close>

theorem configure_sets_shard_group_witness:
  "truthy (PyStr ''users'') \<and> \<not> truthy PyNone \<and> passes_validations sharded_user \<and>
   getattr (snd (configure (PyStr ''users'') PyNone PyNone example_databases sharded_user))
     ''django_sharding__shard_group'' = Some (PyStr ''users'') \<and>
   getattr (snd (configure (PyStr ''users'') PyNone PyNone example_databases sharded_user))
     ''django_sharding__is_sharded'' = Some (PyBool True)"
proof -
  have p: "passes_validations sharded_user"
    by (simp add: passes_validations_def sharded_fields_def sharded_user_def id_field_def
        name_field_def getattr_default_def getattr_def)
  with configure_sets_shard_group
    [of "PyStr ''users''" PyNone sharded_user PyNone example_databases]
  show ?thesis by simp
qed

text \<open>
  C4. For every class decorated with a truthy \<^verbatim>\<open>shard_group\<close>,
  \<^verbatim>\<open>ShardedModelInitializationException\<close> is raised unless all three hold: the class
  has a field whose type is a subclass of \<^verbatim>\<open>ShardedIDFieldMixin\<close>, one of those
  fields is the primary key, and the class has a callable \<^verbatim>\<open>get_shard\<close>.
\<close>

theorem configure_sharded_requirements:
  assumes "truthy shard_group"
    and "\<not> ((\<exists>f \<in> set (meta_fields (meta cls)). sharded_id_field f) \<and>
            (\<exists>f \<in> set (meta_fields (meta cls)). sharded_id_field f \<and> pk (meta cls) = Some f) \<and>
            callable (getattr_default cls ''get_shard'' PyNone))"
  shows "\<exists>reason. fst (configure shard_group database sharded_by_field dbs cls) =
           Some (ShardedModelInitializationException reason)"
proof (cases "truthy database")
  case True
  with assms(1) show ?thesis by (simp add: configure_def)
next
  case False
  from assms(2) have "\<not> passes_validations cls"
    by (simp add: passes_validations_iff)
  from shard_group_step_fails [OF this, of shard_group sharded_by_field]
  show ?thesis by (auto simp: configure_sharded [OF assms(1) False])
qed

text \<open>C4 at the ordinary model, which has no sharded ID field.\<close>

theorem configure_sharded_requirements_witness:
  "truthy (PyStr ''users'') \<and>
   \<not> ((\<exists>f \<in> set (meta_fields (meta plain_user)). sharded_id_field f) \<and>
      (\<exists>f \<in> set (meta_fields (meta plain_user)).
          sharded_id_field f \<and> pk (meta plain_user) = Some f) \<and>
      callable (getattr_default plain_user ''get_shard'' PyNone)) \<and>
   (\<exists>reason. fst (configure (PyStr ''users'') PyNone PyNone example_databases plain_user) =
      Some (ShardedModelInitializationException reason))"
proof -
  have h: "\<not> ((\<exists>f \<in> set (meta_fields (meta plain_user)). sharded_id_field f) \<and>
      (\<exists>f \<in> set (meta_fields (meta plain_user)).
          sharded_id_field f \<and> pk (meta plain_user) = Some f) \<and>
      callable (getattr_default plain_user ''get_shard'' PyNone))"
    by (simp add: plain_user_def name_field_def)
  have t: "truthy (PyStr ''users'')" by simp
  from configure_sharded_requirements [OF t h, of PyNone PyNone example_databases] t h
  show ?thesis by blast
qed




text \<open>
  C6. For every class decorated with a truthy \<^verbatim>\<open>shard_group\<close> and a truthy
  \<^verbatim>\<open>sharded_by_field\<close> that passes the manager handling (the run reaches line 66:
  no database, the validations pass, the \<^verbatim>\<open>try\<close> statement raises nothing),
  \<^verbatim>\<open>django_sharding__sharded_by_field\<close> is set to the given value, and
  \<^verbatim>\<open>ShardedModelInitializationException\<close> is raised if and only if
  \<^verbatim>\<open>getattr(cls, 'get_shard_from_id', None)\<close> is not callable; when it is callable
  the class is returned.
\<close>

theorem configure_sharded_by_field:
  assumes "truthy shard_group" and "\<not> truthy database" and "truthy sharded_by_field"
    and "passes_validations cls" and "fst (manager_step cls) = None"
  shows "getattr (snd (configure shard_group database sharded_by_field dbs cls))
           ''django_sharding__sharded_by_field'' = Some sharded_by_field \<and>
         ((\<exists>reason. fst (configure shard_group database sharded_by_field dbs cls) =
              Some (ShardedModelInitializationException reason)) \<longleftrightarrow>
          \<not> callable (getattr_default cls ''get_shard_from_id'' PyNone)) \<and>
         (callable (getattr_default cls ''get_shard_from_id'' PyNone) \<longrightarrow>
            fst (configure shard_group database sharded_by_field dbs cls) = None)"
  using configure_reaches_line_66 [OF assms, of dbs] by auto

text \<open>C6 at the example model, which has the method: the decorator returns.\<close>

theorem configure_sharded_by_field_witness:
  "truthy (PyStr ''users'') \<and> \<not> truthy PyNone \<and> truthy (PyStr ''user_id'') \<and>
   passes_validations sharded_user \<and> fst (manager_step sharded_user) = None \<and>
   callable (getattr_default sharded_user ''get_shard_from_id'' PyNone) \<and>
   getattr (snd (configure (PyStr ''users'') PyNone (PyStr ''user_id'') example_databases
     sharded_user)) ''django_sharding__sharded_by_field'' = Some (PyStr ''user_id'') \<and>
   fst (configure (PyStr ''users'') PyNone (PyStr ''user_id'') example_databases
     sharded_user) = None"
proof -
  have p: "passes_validations sharded_user"
    by (rule passes_validations_sharded_user)
  have m: "fst (manager_step sharded_user) = None"
    by (simp add: manager_step_passes_iff getattr_def sharded_user_def)
  have g: "callable (getattr_default sharded_user ''get_shard_from_id'' PyNone)"
    by (simp add: getattr_default_def getattr_def sharded_user_def)
  from configure_sharded_by_field
    [of "PyStr ''users''" PyNone "PyStr ''user_id''" sharded_user example_databases,
      OF _ _ _ p m] p m g
  show ?thesis by simp
qed

text \<open>
  C7. For every class, if both \<^verbatim>\<open>database\<close> and \<^verbatim>\<open>shard_group\<close> are falsy, the
  decorator raises \<^verbatim>\<open>ShardedModelInitializationException\<close> (line 20) and the class
  is left as it was.
\<close>

theorem configure_neither_given:
  assumes "\<not> truthy database" and "\<not> truthy shard_group"
  shows "configure shard_group database sharded_by_field dbs cls =
           (Some (ShardedModelInitializationException NeitherShardedNorStored), cls)"
  using assms by (simp add: configure_def)

text \<open>C7 with both arguments omitted.\<close>

theorem configure_neither_given_witness:
  "\<not> truthy PyNone \<and>
   configure PyNone PyNone PyNone example_databases sharded_user =
     (Some (ShardedModelInitializationException NeitherShardedNorStored), sharded_user)"
  using configure_neither_given [of PyNone PyNone PyNone example_databases sharded_user]
  by simp

text \<open>
  C8 as stated lists the attributes a run may change: the four
  \<^verbatim>\<open>django_sharding__*\<close> attributes, \<^verbatim>\<open>objects\<close> and \<^verbatim>\<open>_base_manager\<close>. The
  abstract base model has no manager, so line 57 hands a new \<^verbatim>\<open>ShardManager\<close> to
  the framework's \<^verbatim>\<open>add_to_class\<close>; with the framework's registration the run
  returns and leaves two more changes in the decorated class:
  \<^verbatim>\<open>_default_manager\<close> is set and \<^verbatim>\<open>_meta.abstract_managers\<close> has grown.
\<close>

theorem framework_registration_counterexample:
  "fst (model_config (registering_add_to_class 5) (PyStr ''users'') PyNone (PyStr ''user_id'')
     0 example_world) = Returned 0 \<and>
   ''_default_manager'' \<notin> decorator_attributes \<and>
   attrs (classes example_world 0) ''_default_manager'' = None \<and>
   attrs (classes (snd (model_config (registering_add_to_class 5) (PyStr ''users'') PyNone
     (PyStr ''user_id'') 0 example_world)) 0) ''_default_manager'' =
     Some (PyManager ShardManager) \<and>
   abstract_managers (meta (classes example_world 0)) = [] \<and>
   abstract_managers (meta (classes (snd (model_config (registering_add_to_class 5)
     (PyStr ''users'') PyNone (PyStr ''user_id'') 0 example_world)) 0)) =
     [(5, ''objects'', PyManager ShardManager)]"
  by code_simp

text \<open>
  C8, amended. Let the framework's \<^verbatim>\<open>add_to_class(name, manager)\<close> change nothing
  but the class it is called on, and there the attribute of that name, a set \<open>F\<close> of
  further attributes and the manager list of \<^verbatim>\<open>_meta\<close>. Then for every invocation,
  whether it raises or returns, the side effects of the decorator are confined to the
  decorated class itself: to its own attributes \<^verbatim>\<open>django_sharding__database\<close>,
  \<^verbatim>\<open>django_sharding__shard_group\<close>, \<^verbatim>\<open>django_sharding__is_sharded\<close>,
  \<^verbatim>\<open>django_sharding__sharded_by_field\<close>, \<^verbatim>\<open>objects\<close>, \<^verbatim>\<open>_base_manager\<close> and
  \<open>F\<close>, and to the manager list of its \<^verbatim>\<open>_meta\<close>. It does not modify
  \<^verbatim>\<open>settings.DATABASES\<close>, the inheritance order, any other class object, or the
  name and the rest of \<^verbatim>\<open>_meta\<close> of the decorated class; and when it returns, it
  returns the reference it was given.
\<close>

theorem model_config_confined:
  assumes "framework_confined F add"
    and "model_config add shard_group database sharded_by_field cls w = (out, w')"
  shows "DATABASES w' = DATABASES w \<and>
         ancestors w' = ancestors w \<and>
         (\<forall>c. c \<noteq> cls \<longrightarrow> classes w' c = classes w c) \<and>
         cls_name (classes w' cls) = cls_name (classes w cls) \<and>
         model_name (meta (classes w' cls)) = model_name (meta (classes w cls)) \<and>
         meta_fields (meta (classes w' cls)) = meta_fields (meta (classes w cls)) \<and>
         pk (meta (classes w' cls)) = pk (meta (classes w cls)) \<and>
         abstract (meta (classes w' cls)) = abstract (meta (classes w cls)) \<and>
         (\<forall>name. name \<notin> {''django_sharding__database'', ''django_sharding__shard_group'',
                           ''django_sharding__is_sharded'',
                           ''django_sharding__sharded_by_field'', ''objects'',
                           ''_base_manager''} \<union> F \<longrightarrow>
            attrs (classes w' cls) name = attrs (classes w cls) name) \<and>
         (\<forall>r. out = Returned r \<longrightarrow> r = cls)"
proof -
  from model_config_steps [OF assms]
  have "confined (decorator_attributes \<union> F) cls w w'" .
  moreover have "\<forall>r. out = Returned r \<longrightarrow> r = cls"
    using assms(2) model_config_returns by blast
  ultimately show ?thesis
    unfolding confined_def decorator_attributes_def
    by (elim conjE) (intro conjI; assumption)
qed

text \<open>
  C8, amended, for the framework's registration (\<open>F\<close> is \<^verbatim>\<open>_default_manager\<close>) and
  the run of the counterexample: the settings, the inheritance order, the subclass
  behind reference 1 and the rest of the base model are as before. The subclass object
  is unchanged and yet reads the new attribute, through its base.
\<close>

theorem model_config_confined_witness:
  "framework_confined {''_default_manager''} (registering_add_to_class 5) \<and>
   fst (model_config (registering_add_to_class 5) (PyStr ''users'') PyNone (PyStr ''user_id'')
     0 example_world) = Returned 0 \<and>
   DATABASES (snd (model_config (registering_add_to_class 5) (PyStr ''users'') PyNone
     (PyStr ''user_id'') 0 example_world)) = example_databases \<and>
   ancestors (snd (model_config (registering_add_to_class 5) (PyStr ''users'') PyNone
     (PyStr ''user_id'') 0 example_world)) 1 = [0] \<and>
   classes (snd (model_config (registering_add_to_class 5) (PyStr ''users'') PyNone
     (PyStr ''user_id'') 0 example_world)) 1 = plain_user \<and>
   pk (meta (classes (snd (model_config (registering_add_to_class 5) (PyStr ''users'') PyNone
     (PyStr ''user_id'') 0 example_world)) 0)) = Some id_field \<and>
   attrs (classes (snd (model_config (registering_add_to_class 5) (PyStr ''users'') PyNone
     (PyStr ''user_id'') 0 example_world)) 0) ''get_shard'' = Some (PyFunc ''get_shard'') \<and>
   lookup example_world 1 ''django_sharding__is_sharded'' = None \<and>
   lookup (snd (model_config (registering_add_to_class 5) (PyStr ''users'') PyNone
     (PyStr ''user_id'') 0 example_world)) 1 ''django_sharding__is_sharded'' =
     Some (PyBool True)"
proof -
  let ?run = "model_config (registering_add_to_class 5) (PyStr ''users'') PyNone
     (PyStr ''user_id'') 0 example_world"
  have h: "framework_confined {''_default_manager''} (registering_add_to_class 5)"
    by (rule registering_add_to_class_confined)
  have "?run = (fst ?run, snd ?run)" by simp
  note f = model_config_confined [OF h this]
  have r: "fst ?run = Returned 0" by code_simp
  have l: "lookup example_world 1 ''django_sharding__is_sharded'' = None"
    "lookup (snd ?run) 1 ''django_sharding__is_sharded'' = Some (PyBool True)"
    by code_simp+
  have e: "DATABASES example_world = example_databases"
    "ancestors example_world 1 = [0]"
    "classes example_world 1 = plain_user"
    "pk (meta (classes example_world 0)) = Some id_field"
    "attrs (classes example_world 0) ''get_shard'' = Some (PyFunc ''get_shard'')"
    by (simp_all add: example_world_def abstract_user_def)
  from f have
    "DATABASES (snd ?run) = DATABASES example_world"
    "ancestors (snd ?run) = ancestors example_world"
    "classes (snd ?run) 1 = classes example_world 1"
    "pk (meta (classes (snd ?run) 0)) = pk (meta (classes example_world 0))"
    "attrs (classes (snd ?run) 0) ''get_shard'' = attrs (classes example_world 0) ''get_shard''"
    by simp_all
  with h r l e show ?thesis by simp
qed




text \<open>
  C10. \<^verbatim>\<open>database\<close> and \<^verbatim>\<open>shard_group\<close> are tested for truthiness, not for
  being \<^verbatim>\<open>None\<close>: an empty string for either behaves exactly as the omitted
  argument, so \<^verbatim>\<open>model_config(database='')\<close> without shard group raises the
  exception of line 20 and not \<^verbatim>\<open>NonExistentDatabaseException\<close>.
\<close>

theorem configure_empty_string_as_omitted:
  "configure shard_group (PyStr []) sharded_by_field dbs cls =
     configure shard_group PyNone sharded_by_field dbs cls \<and>
   configure (PyStr []) database sharded_by_field dbs cls =
     configure PyNone database sharded_by_field dbs cls \<and>
   configure PyNone (PyStr []) sharded_by_field dbs cls =
     (Some (ShardedModelInitializationException NeitherShardedNorStored), cls)"
  by (simp add: configure_def split: prod.split option.split)

text \<open>C10 at the ordinary model.\<close>

theorem configure_empty_string_as_omitted_witness:
  "configure PyNone (PyStr []) PyNone example_databases plain_user =
     (Some (ShardedModelInitializationException NeitherShardedNorStored), plain_user) \<and>
   configure (PyStr []) (PyStr ''default'') PyNone example_databases plain_user =
     configure PyNone (PyStr ''default'') PyNone example_databases plain_user"
  using configure_empty_string_as_omitted
    [of PyNone PyNone example_databases plain_user "PyStr ''default''"]
  by blast

end
